theory Spec2Isabelle
  imports Complex_Main
begin

section \<open>Separation of b=0 and DWI frames (sct_dmri_separate_b0_and_dwi.py)\<close>

text \<open>
  The script classifies the frames of a diffusion dataset from its gradient table (or its
  b-value table) and regroups the frames of each class. Python floats are modelled as
  \<^typ>\<open>real\<close>: \<open>math.fsum\<close> is the exact sum, \<open>math.sqrt\<close> the real square root, and
  rounding is not modelled. Indices are naturals. An exception or a \<open>sys.exit\<close> is a value
  of \<open>exn\<close> on the left of a sum.
\<close>

subsection \<open>Exceptions, diagnostics, Python values\<close>

datatype exn =
    IndexError
  | SystemExit int
  | EmptyClassError
  | FileNotFound string

datatype printv_type = Normal | Warning | Error

text \<open>
  \<open>sct.printv(string, verbose, type)\<close> belongs to \<open>sct_utils\<close>. A call is recorded with
  its three arguments, in the order the calls are made.
\<close>

datatype printv_call = Printv string int printv_type

datatype pyval = PyInt int | PyStr string

text \<open>Python's \<open>==\<close> on these values: an \<open>int\<close> never equals a \<open>str\<close>.\<close>

fun py_eq :: "pyval \<Rightarrow> pyval \<Rightarrow> bool" where
  "py_eq (PyInt a) (PyInt b) = (a = b)"
| "py_eq (PyStr a) (PyStr b) = (a = b)"
| "py_eq (PyInt a) (PyStr b) = False"
| "py_eq (PyStr a) (PyInt b) = False"

subsection \<open>\<open>str\<close> of a non-negative integer and of a list, \<open>zfill\<close>\<close>

definition digit :: "nat \<Rightarrow> char" where
  "digit d = ''0123456789'' ! d"

function str_nat :: "nat \<Rightarrow> string" where
  "str_nat n = (if n < 10 then [digit n] else str_nat (n div 10) @ [digit (n mod 10)])"
  by pat_completeness auto
termination
  by (relation "measure id") auto

declare str_nat.simps [simp del]

fun join :: "string \<Rightarrow> string list \<Rightarrow> string" where
  "join sep [] = []"
| "join sep [s] = s"
| "join sep (s # t # ss) = s @ sep @ join sep (t # ss)"

definition str_list :: "nat list \<Rightarrow> string" where
  "str_list xs = ''['' @ join '', '' (map str_nat xs) @ '']''"

text \<open>
  Reading a decimal numeral back, to tell the file names of different frames apart.
\<close>

definition digit_val :: "char \<Rightarrow> nat" where
  "digit_val c = of_char c - 48"

definition decode :: "string \<Rightarrow> nat" where
  "decode s = foldl (\<lambda>a c. 10 * a + digit_val c) 0 s"

text \<open>
  \<open>s.zfill(width)\<close> for a string without a sign, which is what \<open>str\<close> gives for an index:
  zeros are added on the left up to \<open>width\<close>, and a longer string is left as it is.
\<close>

definition zfill :: "nat \<Rightarrow> string \<Rightarrow> string" where
  "zfill width s = replicate (width - length s) (CHR ''0'') @ s"

subsection \<open>\<open>identify_b0\<close>\<close>

text \<open>\<open>list(zip(*bvecs))\<close>: the transpose, cut at the shortest row.\<close>

fun min_len :: "'a list list \<Rightarrow> nat" where
  "min_len [] = 0"
| "min_len [r] = length r"
| "min_len (r # rs) = min (length r) (min_len rs)"

definition zip_star :: "'a list list \<Rightarrow> 'a list list" where
  "zip_star rows = map (\<lambda>j. map (\<lambda>r. r ! j) rows) [0..<min_len rows]"

text \<open>Line 276: \<open>math.sqrt(math.fsum([i**2 for i in bvecs[it]])) < 0.01\<close>.\<close>

definition bvec_norm :: "real list \<Rightarrow> real" where
  "bvec_norm v = sqrt (sum_list (map (\<lambda>i. i ^ 2) v))"

definition norm_lt :: "real list \<Rightarrow> bool" where
  "norm_lt v \<longleftrightarrow> bvec_norm v < 0.01"

text \<open>
  The two \<open>for it in range(0, nt)\<close> loops (lines 275-279 and 293-297) differ in their test
  only: each appends \<open>it\<close> to \<open>index_b0\<close> when the test holds and to \<open>index_dwi\<close> otherwise.
\<close>

definition loop_body :: "(nat \<Rightarrow> bool) \<Rightarrow> nat list \<times> nat list \<Rightarrow> nat \<Rightarrow> nat list \<times> nat list" where
  "loop_body test acc it =
     (case acc of (index_b0, index_dwi) \<Rightarrow>
        if test it then (index_b0 @ [it], index_dwi) else (index_b0, index_dwi @ [it]))"

definition classify :: "(nat \<Rightarrow> bool) \<Rightarrow> nat \<Rightarrow> nat list \<times> nat list" where
  "classify test nt = foldl (loop_body test) ([], []) [0..<nt]"

text \<open>Lines 264-269: the table as the loop reads it, with the diagnostics of the transposition.\<close>

definition msg_identify :: string where
  "msg_identify = CHR 0x0A # ''Identify b=0 and DWI images...''"

definition msg_3xn :: string where
  "msg_3xn = ''  WARNING: bvecs file is 3xn instead of nx3. Consider using sct_dmri_transpose_bvecs.''"

definition msg_transpose :: string where
  "msg_transpose = ''  Transpose bvecs...''"

definition msg_no_b0 :: string where
  "msg_no_b0 = ''ERROR: no b=0 images detected. Maybe you are using non-null low bvals? in that case use flag -bvalmin. Exit program.''"

definition check_nx3 :: "real list list \<Rightarrow> int \<Rightarrow> exn + (printv_call list \<times> real list list)" where
  "check_nx3 bvecs verbose =
     (case bvecs of
        [] \<Rightarrow> Inl IndexError
      | r0 # _ \<Rightarrow>
          if \<not> length r0 = 3
          then Inr ([Printv msg_3xn verbose Warning, Printv msg_transpose verbose Normal],
                    zip_star bvecs)
          else Inr ([], bvecs))"

text \<open>
  Lines 252-297: the two index lists, whichever table is read. \<open>bvecs_file\<close> is the list of
  rows that lines 259-262 parse from \<open>fname_bvecs\<close>, \<open>bvals_file\<close> the b-values that dipy's
  \<open>read_bvals_bvecs\<close> returns; the second is read only when \<open>fname_bvals\<close> is not empty.
\<close>

definition build_indices ::
  "real list list \<Rightarrow> string \<Rightarrow> real list \<Rightarrow> real \<Rightarrow> int
     \<Rightarrow> printv_call list \<times> (exn + nat list \<times> nat list)" where
  "build_indices bvecs_file fname_bvals bvals_file bval_min verbose =
     (let log0 = [Printv msg_identify verbose Normal] in
      if fname_bvals = []
      then (case check_nx3 bvecs_file verbose of
              Inl e \<Rightarrow> (log0, Inl e)
            | Inr (log1, bvecs) \<Rightarrow>
                (log0 @ log1, Inr (classify (\<lambda>it. norm_lt (bvecs ! it)) (length bvecs))))
      else (log0 @ [Printv msg_identify verbose Normal],
            Inr (classify (\<lambda>it. bvals_file ! it < bval_min) (length bvals_file))))"

text \<open>Lines 299-311: the check for an empty \<open>index_b0\<close>, the two counts, the return.\<close>

definition finish ::
  "nat list \<Rightarrow> nat list \<Rightarrow> int
     \<Rightarrow> printv_call list \<times> (exn + nat list \<times> nat list \<times> nat \<times> nat)" where
  "finish index_b0 index_dwi verbose =
     (if index_b0 = []
      then ([Printv msg_no_b0 1 Error], Inl (SystemExit 2))
      else (let nb_b0 = length index_b0; nb_dwi = length index_dwi in
            ([Printv (''  Number of b=0: '' @ str_nat nb_b0 @ '' '' @ str_list index_b0) verbose Normal,
              Printv (''  Number of DWI: '' @ str_nat nb_dwi @ '' '' @ str_list index_dwi) verbose Normal],
             Inr (index_b0, index_dwi, nb_b0, nb_dwi))))"

definition identify_b0 ::
  "real list list \<Rightarrow> string \<Rightarrow> real list \<Rightarrow> real \<Rightarrow> int
     \<Rightarrow> printv_call list \<times> (exn + nat list \<times> nat list \<times> nat \<times> nat)" where
  "identify_b0 bvecs_file fname_bvals bvals_file bval_min verbose =
     (case build_indices bvecs_file fname_bvals bvals_file bval_min verbose of
        (log1, Inl e) \<Rightarrow> (log1, Inl e)
      | (log1, Inr (index_b0, index_dwi)) \<Rightarrow>
          (case finish index_b0 index_dwi verbose of
             (log2, res) \<Rightarrow> (log1 @ log2, res)))"

subsection \<open>Well-formed tables\<close>

text \<open>
  The shapes the specification calls well-formed, used to state the properties: an
  \<open>N\<times>3\<close> table has at least one row and three components in every row; a \<open>3\<times>N\<close> table
  has three rows of \<open>N \<ge> 1\<close> components. \<open>stored_3xn t s\<close> says that \<open>s\<close> is the \<open>N\<times>3\<close>
  table \<open>t\<close> written as \<open>3\<times>N\<close>.
\<close>

definition nx3 :: "real list list \<Rightarrow> bool" where
  "nx3 t \<longleftrightarrow> t \<noteq> [] \<and> list_all (\<lambda>r. length r = 3) t"


definition stored_3xn :: "real list list \<Rightarrow> real list list \<Rightarrow> bool" where
  "stored_3xn t s \<longleftrightarrow>
     length s = 3 \<and> list_all (\<lambda>r. length r = length t) s \<and>
     list_all (\<lambda>i. list_all (\<lambda>j. s ! j ! i = t ! i ! j) [0..<3]) [0..<length t]"



subsection \<open>\<open>Param\<close>, \<open>get_parser\<close> and \<open>main\<close>\<close>

record Param =
  param_debug :: int
  param_average :: int
  param_remove_temp_files :: int
  param_verbose :: int
  param_bval_min :: real

definition Param_init :: Param where
  "Param_init =
     \<lparr>param_debug = 0, param_average = 1, param_remove_temp_files = 1, param_verbose = 1,
      param_bval_min = 100\<rparr>"

text \<open>
  The namespace that \<open>parse_args\<close> returns, for the options \<open>main\<close> reads. \<open>-bvalmin\<close> has
  \<open>type=float\<close> and no default, so it is \<open>None\<close> or a float; \<open>-r\<close> has no \<open>type\<close>, so it
  is the string given or the default as it stands. \<open>arg_v\<close> is \<open>int(arguments.v)\<close>.
\<close>

record arguments =
  arg_a :: int
  arg_bval :: string
  arg_bvalmin :: "real option"
  arg_r :: pyval
  arg_v :: int

text \<open>
  Lines 100-105: \<open>-r\<close> with \<open>choices=('0', '1')\<close> and
  \<open>default=param_default.remove_temp_files\<close>. argparse converts only a string default, and
  leaves with status 2 on a value outside the choices.
\<close>

definition parse_r :: "string option \<Rightarrow> exn + pyval" where
  "parse_r given =
     (case given of
        None \<Rightarrow> Inr (PyInt (param_remove_temp_files Param_init))
      | Some s \<Rightarrow> if s = ''0'' \<or> s = ''1'' then Inr (PyStr s) else Inl (SystemExit 2))"

text \<open>Truth value of \<open>arguments.bvalmin\<close>: \<open>None\<close> and \<open>0.0\<close> are false.\<close>

definition truthy :: "real option \<Rightarrow> bool" where
  "truthy v = (case v of None \<Rightarrow> False | Some x \<Rightarrow> x \<noteq> 0)"

text \<open>Lines 119 and 136-137.\<close>

definition set_bval_min :: "Param \<Rightarrow> arguments \<Rightarrow> Param" where
  "set_bval_min param args =
     (if truthy (arg_bvalmin args)
      then (case arg_bvalmin args of
              Some x \<Rightarrow> param\<lparr>param_bval_min := x\<rparr>
            | None \<Rightarrow> param)
      else param)"

definition ext :: string where
  "ext = ''.nii''"

definition dmri_name :: string where
  "dmri_name = ''dmri''"

text \<open>Lines 199 and 210: \<open>dmri_name + '_T' + str(index[it]).zfill(4) + ext\<close>.\<close>

definition frame_fname :: "nat \<Rightarrow> string" where
  "frame_fname idx = dmri_name @ ''_T'' @ zfill 4 (str_nat idx) @ ext"

text \<open>Lines 197-199 and 208-210: the list \<open>l\<close> of file names handed to \<open>concat_data\<close>.\<close>

definition merge_list :: "nat list \<Rightarrow> nat \<Rightarrow> string list" where
  "merge_list index nb = map (\<lambda>it. frame_fname (index ! it)) [0..<nb]"

text \<open>
  Modelled from the spec: \<open>split_data\<close> of \<open>sct_image\<close> is not among the sources. The
  specification has it produce the single-frame volumes of a volume, one per index along
  the temporal axis, in ascending index order. A volume is the list of its frames. The
  path each frame is saved under is not fixed by the specification: it is the parameter
  \<open>path_of\<close>.
\<close>

definition split_data :: "'f list \<Rightarrow> (nat \<Rightarrow> string) \<Rightarrow> (string \<times> 'f list) list" where
  "split_data im path_of = map (\<lambda>k. (path_of k, [im ! k])) [0..<length im]"

text \<open>Lines 191-192: every image of the list is saved under its own path, in list order.\<close>

definition save_all :: "(string \<times> 'f list) list \<Rightarrow> (string \<rightharpoonup> 'f list) \<Rightarrow> (string \<rightharpoonup> 'f list)" where
  "save_all ims fs = foldl (\<lambda>fs' im. fs'(fst im \<mapsto> snd im)) fs ims"

fun read_all :: "(string \<rightharpoonup> 'f list) \<Rightarrow> string list \<Rightarrow> exn + 'f list list" where
  "read_all fs [] = Inr []"
| "read_all fs (p # ps) =
     (case fs p of
        None \<Rightarrow> Inl (FileNotFound p)
      | Some v \<Rightarrow> (case read_all fs ps of Inl e \<Rightarrow> Inl e | Inr vs \<Rightarrow> Inr (v # vs)))"

text \<open>
  Modelled from the spec: \<open>concat_data\<close> of \<open>sct_image\<close> is not among the sources. The
  specification has it take an ordered sequence of single-frame volume file paths and
  produce one volume by concatenating them in the given order along the temporal axis, and
  has the assembler fail with an \<open>EmptyClassError\<close> on an empty index list.
\<close>

definition concat_data :: "(string \<rightharpoonup> 'f list) \<Rightarrow> string list \<Rightarrow> exn + 'f list" where
  "concat_data fs l =
     (if l = [] then Inl EmptyClassError
      else (case read_all fs l of Inl e \<Rightarrow> Inl e | Inr vs \<Rightarrow> Inr (concat vs)))"

text \<open>Lines 194-200 and 207-211: one class of frames assembled from the temporary folder.\<close>

definition assemble :: "(string \<rightharpoonup> 'f list) \<Rightarrow> nat list \<Rightarrow> exn + 'f list" where
  "assemble fs index = concat_data fs (merge_list index (length index))"

record 'f main_result =
  b0_volume :: "'f list"
  dwi_volume :: "'f list"
  tmp_removed :: bool

text \<open>
  Lines 188-242 of \<open>main\<close>, after the classification: the frames are split and saved,
  each class is merged from the saved frames, and the temporary folder is removed when
  \<open>remove_temp_files == 1\<close>. \<open>im_dmri\<close> is the list of frames of the input volume,
  \<open>file_data\<close> the base name of the input, \<open>fs\<close> the files of the temporary folder. The
  averaging by \<open>sct_maths\<close>, the copy of the results to the output folder and the progress
  messages are left out.
\<close>

definition separate ::
  "pyval \<Rightarrow> nat list \<Rightarrow> nat list \<Rightarrow> nat \<Rightarrow> nat \<Rightarrow> 'f list \<Rightarrow> string \<Rightarrow> (nat \<Rightarrow> string)
     \<Rightarrow> (string \<rightharpoonup> 'f list) \<Rightarrow> exn + 'f main_result" where
  "separate remove_temp_files index_b0 index_dwi nb_b0 nb_dwi im_dmri file_data path_of fs =
     (let b0_name = file_data @ ''_b0'';
          fs1 = save_all (split_data im_dmri path_of) fs
      in case concat_data fs1 (merge_list index_b0 nb_b0) of
           Inl e \<Rightarrow> Inl e
         | Inr b0 \<Rightarrow>
             (let fs2 = fs1(b0_name @ ext \<mapsto> b0) in
              case concat_data fs2 (merge_list index_dwi nb_dwi) of
                Inl e \<Rightarrow> Inl e
              | Inr dwi \<Rightarrow>
                  Inr \<lparr>b0_volume = b0, dwi_volume = dwi,
                       tmp_removed = py_eq remove_temp_files (PyInt 1)\<rparr>))"

text \<open>
  \<open>main\<close>, from the parsed arguments: the threshold is set (lines 119, 136-137),
  \<open>identify_b0\<close> is called with it (line 186), and an exit or an exception ends the run.
  \<open>bvecs_file\<close> and \<open>bvals_file\<close> are the tables that \<open>identify_b0\<close> reads. The conversion
  of the input and the progress messages of \<open>main\<close> itself are left out. A non-empty
  \<open>fname_bvals\<close> stays non-empty under \<open>os.path.abspath\<close>.
\<close>

definition main ::
  "arguments \<Rightarrow> real list list \<Rightarrow> real list \<Rightarrow> 'f list \<Rightarrow> string \<Rightarrow> (nat \<Rightarrow> string)
     \<Rightarrow> (string \<rightharpoonup> 'f list) \<Rightarrow> printv_call list \<times> (exn + 'f main_result)" where
  "main args bvecs_file bvals_file im_dmri file_data path_of fs =
     (let param = set_bval_min Param_init args;
          remove_temp_files = arg_r args
      in case identify_b0 bvecs_file (arg_bval args) bvals_file (param_bval_min param) (arg_v args) of
           (msgs, Inl e) \<Rightarrow> (msgs, Inl e)
         | (msgs, Inr (index_b0, index_dwi, nb_b0, nb_dwi)) \<Rightarrow>
             (msgs, separate remove_temp_files index_b0 index_dwi nb_b0 nb_dwi
                      im_dmri file_data path_of fs))"

section \<open>Properties of the classification loop\<close>

lemma classify_filter:
  "classify test nt = (filter test [0..<nt], filter (\<lambda>it. \<not> test it) [0..<nt])"
  by (induction nt) (simp_all add: classify_def loop_body_def)

lemma sqrt_hundredth: "sqrt (0.0001::real) = 0.01"
  by (rule real_sqrt_unique) (simp_all add: power2_eq_square)

lemma norm_lt_iff [code]: "norm_lt v \<longleftrightarrow> sum_list (map (\<lambda>i. i ^ 2) v) < 0.0001"
proof -
  have "norm_lt v \<longleftrightarrow> sqrt (sum_list (map (\<lambda>i. i ^ 2) v)) < sqrt 0.0001"
    unfolding norm_lt_def bvec_norm_def sqrt_hundredth ..
  then show ?thesis
    unfolding real_sqrt_less_iff .
qed

section \<open>What \<open>identify_b0\<close> computes\<close>

lemma snd_identify_b0:
  "snd (identify_b0 bvecs_file fname_bvals bvals_file bval_min verbose) =
     (case snd (build_indices bvecs_file fname_bvals bvals_file bval_min verbose) of
        Inl e \<Rightarrow> Inl e
      | Inr (index_b0, index_dwi) \<Rightarrow>
          if index_b0 = [] then Inl (SystemExit 2)
          else Inr (index_b0, index_dwi, length index_b0, length index_dwi))"
  by (simp add: identify_b0_def finish_def Let_def split: prod.splits sum.splits)

lemma snd_build_indices_bvals:
  "fname_bvals \<noteq> [] \<Longrightarrow>
   snd (build_indices bvecs_file fname_bvals bvals_file bval_min verbose) =
     Inr (filter (\<lambda>it. bvals_file ! it < bval_min) [0..<length bvals_file],
          filter (\<lambda>it. \<not> bvals_file ! it < bval_min) [0..<length bvals_file])"
  by (simp add: build_indices_def classify_filter)

lemma snd_build_indices_nx3:
  "bvecs_file = r0 # rs \<Longrightarrow> length r0 = 3 \<Longrightarrow>
   snd (build_indices bvecs_file [] bvals_file bval_min verbose) =
     Inr (filter (\<lambda>it. norm_lt (bvecs_file ! it)) [0..<length bvecs_file],
          filter (\<lambda>it. \<not> norm_lt (bvecs_file ! it)) [0..<length bvecs_file])"
  by (simp add: build_indices_def check_nx3_def classify_filter)


lemma min_len_const: "rows \<noteq> [] \<Longrightarrow> \<forall>r\<in>set rows. length r = n \<Longrightarrow> min_len rows = n"
  by (induction rows rule: min_len.induct) auto

lemma zip_star_stored:
  assumes "nx3 t" and "stored_3xn t s"
  shows "zip_star s = t"
proof (rule nth_equalityI)
  from assms(2) have s3: "length s = 3" and rows: "\<forall>r\<in>set s. length r = length t"
    and el: "\<forall>i<length t. \<forall>j<3. s ! j ! i = t ! i ! j"
    by (auto simp: stored_3xn_def list_all_iff)
  from s3 have "s \<noteq> []" by auto
  then have ml: "min_len s = length t" using rows by (rule min_len_const)
  then show len: "length (zip_star s) = length t" by (simp add: zip_star_def)
  fix i assume "i < length (zip_star s)"
  with len have i: "i < length t" by simp
  with assms(1) have li: "length (t ! i) = 3" by (auto simp: nx3_def list_all_iff)
  have "zip_star s ! i = map (\<lambda>r. r ! i) s" using i ml by (simp add: zip_star_def)
  also have "\<dots> = t ! i"
    by (rule nth_equalityI) (use s3 li el i in auto)
  finally show "zip_star s ! i = t ! i" .
qed












text \<open>
  Claim C2. When a b-value file is given (\<open>fname_bvals\<close> is not empty), frame \<open>i\<close> is put
  in \<open>index_b0\<close> if and only if \<open>bvals[i] < bval_min\<close>, with a strict comparison, and in
  \<open>index_dwi\<close> otherwise, whatever the gradient table holds: a b-value equal to
  the threshold is DWI, one a unit below it is B0. These are the lists \<open>identify_b0\<close>
  returns, unless \<open>index_b0\<close> is empty, where it exits.
\<close>

theorem identify_b0_bvals:
  assumes "fname_bvals \<noteq> []"
  shows "\<exists>index_b0 index_dwi.
     snd (build_indices bvecs_file fname_bvals bvals bval_min verbose) = Inr (index_b0, index_dwi) \<and>
     (\<forall>i<length bvals.
        (i \<in> set index_b0 \<longleftrightarrow> bvals ! i < bval_min) \<and>
        (i \<in> set index_dwi \<longleftrightarrow> \<not> bvals ! i < bval_min) \<and>
        (bvals ! i = bval_min \<longrightarrow> i \<in> set index_dwi) \<and>
        (bvals ! i = bval_min - 1 \<longrightarrow> i \<in> set index_b0)) \<and>
     snd (build_indices other_bvecs_file fname_bvals bvals bval_min verbose) = Inr (index_b0, index_dwi) \<and>
     snd (identify_b0 bvecs_file fname_bvals bvals bval_min verbose) =
       (if index_b0 = [] then Inl (SystemExit 2)
        else Inr (index_b0, index_dwi, length index_b0, length index_dwi))"
  using assms by (simp add: snd_build_indices_bvals snd_identify_b0)

theorem identify_b0_bvals_witness:
  "''bvals'' \<noteq> [] \<and>
   (\<exists>index_b0 index_dwi.
     snd (identify_b0 [[1,0,0],[1,0,0],[0,0,0]] ''bvals'' [99, 100, 800] 100 1) =
       Inr (index_b0, index_dwi, length index_b0, length index_dwi) \<and>
     0 \<in> set index_b0 \<and> 1 \<in> set index_dwi \<and> 2 \<in> set index_dwi)"
proof -
  have h: "''bvals'' \<noteq> []" by simp
  from identify_b0_bvals [OF h, of "[[1,0,0],[1,0,0],[0,0,0]]" "[99, 100, 800]" 100 1 "[]"]
  obtain index_b0 index_dwi where
    a: "\<forall>i<length [99, 100, 800::real].
        (i \<in> set index_b0 \<longleftrightarrow> [99, 100, 800::real] ! i < 100) \<and>
        (i \<in> set index_dwi \<longleftrightarrow> \<not> [99, 100, 800::real] ! i < 100) \<and>
        ([99, 100, 800::real] ! i = 100 \<longrightarrow> i \<in> set index_dwi) \<and>
        ([99, 100, 800::real] ! i = 100 - 1 \<longrightarrow> i \<in> set index_b0)"
    and b: "snd (identify_b0 [[1,0,0],[1,0,0],[0,0,0]] ''bvals'' [99, 100, 800] 100 1) =
       (if index_b0 = [] then Inl (SystemExit 2)
        else Inr (index_b0, index_dwi, length index_b0, length index_dwi))"
    by blast
  from a have 0: "0 \<in> set index_b0" by (simp add: All_less_Suc2 numeral_3_eq_3)
  from a have 1: "1 \<in> set index_dwi" by (simp add: All_less_Suc2 numeral_3_eq_3)
  from a have 2: "2 \<in> set index_dwi" by (simp add: All_less_Suc2 numeral_3_eq_3 numeral_2_eq_2)
  from 0 have "index_b0 \<noteq> []" by auto
  with b 0 1 2 h show ?thesis by auto
qed





section \<open>The run without a b=0 frame\<close>

lemma fst_main:
  "fst (main args bvecs_file bvals_file im_dmri file_data path_of fs) =
   fst (identify_b0 bvecs_file (arg_bval args) bvals_file
          (param_bval_min (set_bval_min Param_init args)) (arg_v args))"
  by (simp add: main_def Let_def split: prod.splits sum.splits)

lemma snd_main_Inl:
  assumes "snd (identify_b0 bvecs_file (arg_bval args) bvals_file
          (param_bval_min (set_bval_min Param_init args)) (arg_v args)) = Inl e"
  shows "snd (main args bvecs_file bvals_file im_dmri file_data path_of fs) = Inl e"
proof (cases "identify_b0 bvecs_file (arg_bval args) bvals_file
          (param_bval_min (set_bval_min Param_init args)) (arg_v args)")
  case (Pair msgs r)
  with assms have "r = Inl e" by simp
  with Pair show ?thesis by (simp add: main_def)
qed

lemma read_all_Inl: "read_all fs l = Inl e \<Longrightarrow> \<exists>p. e = FileNotFound p"
  by (induction l) (auto split: option.splits sum.splits)

lemma concat_data_Inl: "concat_data fs l = Inl e \<Longrightarrow> e = EmptyClassError \<or> (\<exists>p. e = FileNotFound p)"
  by (auto simp: concat_data_def split: if_splits sum.splits dest: read_all_Inl)

lemma snd_main_Inr:
  assumes "snd (identify_b0 bvecs_file (arg_bval args) bvals_file
          (param_bval_min (set_bval_min Param_init args)) (arg_v args)) = Inr r"
  shows "snd (main args bvecs_file bvals_file im_dmri file_data path_of fs) \<noteq> Inl (SystemExit k)"
proof (cases "identify_b0 bvecs_file (arg_bval args) bvals_file
          (param_bval_min (set_bval_min Param_init args)) (arg_v args)")
  case (Pair msgs r')
  with assms have "r' = Inr r" by simp
  with Pair show ?thesis
    by (auto simp: main_def separate_def Let_def split: prod.splits sum.splits dest: concat_data_Inl)
qed

lemma fst_identify_b0:
  "fst (identify_b0 bvecs_file fname_bvals bvals_file bval_min verbose) =
     fst (build_indices bvecs_file fname_bvals bvals_file bval_min verbose) @
     (case snd (build_indices bvecs_file fname_bvals bvals_file bval_min verbose) of
        Inl e \<Rightarrow> []
      | Inr (index_b0, index_dwi) \<Rightarrow> fst (finish index_b0 index_dwi verbose))"
  by (simp add: identify_b0_def split: prod.splits sum.splits)

lemma build_indices_no_Error:
  "Printv m v Error \<notin> set (fst (build_indices bvecs_file fname_bvals bvals_file bval_min verbose))"
  by (simp add: build_indices_def check_nx3_def Let_def split: list.splits)

lemma msg_no_b0_text: "\<exists>pre post. msg_no_b0 = pre @ ''no b=0 images detected'' @ post"
  by (rule exI [of _ "''ERROR: ''"]) (simp add: msg_no_b0_def)

text \<open>
  Claim C6. When the list \<open>index_b0\<close> built by the classification is empty, the run is
  fatal: \<open>identify_b0\<close>, and \<open>main\<close> with it, ends by \<open>sys.exit(2)\<close>, a non-zero
  status, after a last diagnostic of type error whose text says that no b=0 images were
  detected. When \<open>index_b0\<close> is not empty, \<open>identify_b0\<close> returns, it emits no diagnostic
  of type error, and \<open>main\<close> does not end by \<open>sys.exit\<close>.
\<close>

theorem no_b0_is_fatal:
  assumes "snd (build_indices bvecs_file fname_bvals bvals_file bval_min verbose) = Inr (index_b0, index_dwi)"
    and "fname_bvals = arg_bval args"
    and "bval_min = param_bval_min (set_bval_min Param_init args)"
    and "verbose = arg_v args"
  shows "(index_b0 = [] \<longrightarrow>
            snd (identify_b0 bvecs_file fname_bvals bvals_file bval_min verbose) = Inl (SystemExit 2) \<and>
            last (fst (identify_b0 bvecs_file fname_bvals bvals_file bval_min verbose)) = Printv msg_no_b0 1 Error \<and>
            (\<exists>pre post. msg_no_b0 = pre @ ''no b=0 images detected'' @ post) \<and>
            snd (main args bvecs_file bvals_file im_dmri file_data path_of fs) = Inl (SystemExit 2) \<and>
            last (fst (main args bvecs_file bvals_file im_dmri file_data path_of fs)) = Printv msg_no_b0 1 Error) \<and>
         (index_b0 \<noteq> [] \<longrightarrow>
            snd (identify_b0 bvecs_file fname_bvals bvals_file bval_min verbose) =
              Inr (index_b0, index_dwi, length index_b0, length index_dwi) \<and>
            (\<forall>m v. Printv m v Error \<notin> set (fst (identify_b0 bvecs_file fname_bvals bvals_file bval_min verbose))) \<and>
            (\<forall>k. snd (main args bvecs_file bvals_file im_dmri file_data path_of fs) \<noteq> Inl (SystemExit k)))"
proof (intro conjI impI)
  assume e: "index_b0 = []"
  with assms(1) show x: "snd (identify_b0 bvecs_file fname_bvals bvals_file bval_min verbose) = Inl (SystemExit 2)"
    by (simp add: snd_identify_b0)
  from e assms(1) show l: "last (fst (identify_b0 bvecs_file fname_bvals bvals_file bval_min verbose)) = Printv msg_no_b0 1 Error"
    by (simp add: fst_identify_b0 finish_def)
  show "\<exists>pre post. msg_no_b0 = pre @ ''no b=0 images detected'' @ post"
    by (rule msg_no_b0_text)
  from x assms(2-4) show "snd (main args bvecs_file bvals_file im_dmri file_data path_of fs) = Inl (SystemExit 2)"
    using snd_main_Inl by blast
  from l assms(2-4) show "last (fst (main args bvecs_file bvals_file im_dmri file_data path_of fs)) = Printv msg_no_b0 1 Error"
    by (simp add: fst_main)
next
  assume ne: "index_b0 \<noteq> []"
  with assms(1) show x: "snd (identify_b0 bvecs_file fname_bvals bvals_file bval_min verbose) =
              Inr (index_b0, index_dwi, length index_b0, length index_dwi)"
    by (simp add: snd_identify_b0)
  from ne assms(1) show "\<forall>m v. Printv m v Error \<notin> set (fst (identify_b0 bvecs_file fname_bvals bvals_file bval_min verbose))"
    by (simp add: fst_identify_b0 finish_def build_indices_no_Error Let_def)
  from x assms(2-4) show "\<forall>k. snd (main args bvecs_file bvals_file im_dmri file_data path_of fs) \<noteq> Inl (SystemExit k)"
    using snd_main_Inr by blast
qed


theorem no_b0_is_fatal_witness:
  "snd (identify_b0 [[1,0,0]] [] [] 100 1) = Inl (SystemExit 2) \<and>
   last (fst (identify_b0 [[1,0,0]] [] [] 100 1)) = Printv msg_no_b0 1 Error \<and>
   snd (main \<lparr>arg_a = 1, arg_bval = [], arg_bvalmin = None, arg_r = PyInt 1, arg_v = 1\<rparr>
          [[1,0,0]] [] [''f0''] ''dmri'' frame_fname Map.empty) = Inl (SystemExit 2) \<and>
   snd (identify_b0 [[0,0,0],[1,0,0]] [] [] 100 1) = Inr ([0], [1], 1, 1) \<and>
   (\<forall>k. snd (main \<lparr>arg_a = 1, arg_bval = [], arg_bvalmin = None, arg_r = PyInt 1, arg_v = 1\<rparr>
          [[0,0,0],[1,0,0]] [] [''f0'', ''f1''] ''dmri'' frame_fname Map.empty) \<noteq> Inl (SystemExit k))"
proof -
  let ?args = "\<lparr>arg_a = 1, arg_bval = [], arg_bvalmin = None, arg_r = PyInt 1, arg_v = 1\<rparr>"
  have b1: "snd (build_indices [[1,0,0]] [] [] 100 1) = Inr ([], [0])"
    by (simp add: snd_build_indices_nx3 norm_lt_iff)
  have b2: "snd (build_indices [[0,0,0],[1,0,0]] [] [] 100 1) = Inr ([0], [1])"
    by (simp add: snd_build_indices_nx3 norm_lt_iff upt_conv_Cons)
  have f: "[] = arg_bval ?args" by simp
  have p: "100 = param_bval_min (set_bval_min Param_init ?args)"
    by (simp add: set_bval_min_def truthy_def Param_init_def)
  have v: "1 = arg_v ?args" by simp
  from no_b0_is_fatal [OF b1 f p v, of "[''f0'']" "''dmri''" frame_fname Map.empty]
       no_b0_is_fatal [OF b2 f p v, of "[''f0'', ''f1'']" "''dmri''" frame_fname Map.empty]
  show ?thesis by simp
qed

section \<open>The shape of the gradient table\<close>

lemma check_nx3_stored:
  assumes "nx3 t" and "length t \<noteq> 3" and "stored_3xn t s"
  shows "check_nx3 s verbose =
     Inr ([Printv msg_3xn verbose Warning, Printv msg_transpose verbose Normal], t)"
proof -
  from assms(3) obtain r0 rs where s: "s = r0 # rs" and "length r0 = length t"
    by (cases s) (auto simp: stored_3xn_def)
  with assms(2) have "length r0 \<noteq> 3" by simp
  with s show ?thesis
    using zip_star_stored [OF assms(1,3)] by (simp add: check_nx3_def)
qed

lemma check_nx3_nx3: "nx3 t \<Longrightarrow> check_nx3 t verbose = Inr ([], t)"
  by (cases t) (auto simp: nx3_def check_nx3_def)

text \<open>
  Claim C7, as amended. For every \<open>N\<times>3\<close> gradient table with \<open>N \<noteq> 3\<close>, classifying
  the table stored as \<open>3\<times>N\<close> gives the same result as classifying it stored as \<open>N\<times>3\<close>:
  the \<open>3\<times>N\<close> form is detected by the length of its first row, the warning is emitted
  and the table is transposed back before the loop. (With a b-value file the gradient
  table is not read, and the results agree as well.)
\<close>

theorem transposed_table_same_result:
  assumes "nx3 t" and "length t \<noteq> 3" and "stored_3xn t s"
  shows "snd (identify_b0 s fname_bvals bvals_file bval_min verbose) =
           snd (identify_b0 t fname_bvals bvals_file bval_min verbose) \<and>
         check_nx3 s verbose =
           Inr ([Printv msg_3xn verbose Warning, Printv msg_transpose verbose Normal], t) \<and>
         check_nx3 t verbose = Inr ([], t) \<and>
         (fname_bvals = [] \<longrightarrow>
            Printv msg_3xn verbose Warning
              \<in> set (fst (identify_b0 s fname_bvals bvals_file bval_min verbose)))"
proof -
  note c = check_nx3_stored [OF assms, of verbose] check_nx3_nx3 [OF assms(1), of verbose]
  have "snd (build_indices s fname_bvals bvals_file bval_min verbose) =
        snd (build_indices t fname_bvals bvals_file bval_min verbose)"
    by (simp add: build_indices_def Let_def c)
  then have "snd (identify_b0 s fname_bvals bvals_file bval_min verbose) =
           snd (identify_b0 t fname_bvals bvals_file bval_min verbose)"
    by (simp add: snd_identify_b0)
  moreover have "fname_bvals = [] \<longrightarrow>
            Printv msg_3xn verbose Warning
              \<in> set (fst (identify_b0 s fname_bvals bvals_file bval_min verbose))"
    by (simp add: fst_identify_b0 build_indices_def Let_def c)
  ultimately show ?thesis using c by simp
qed

theorem transposed_table_same_result_witness:
  "nx3 [[0,0,0],[1,0,0]] \<and> length [[0,0,0],[1,0,0::real]] \<noteq> 3 \<and>
   stored_3xn [[0,0,0],[1,0,0]] [[0,1],[0,0],[0,0]] \<and>
   snd (identify_b0 [[0,1],[0,0],[0,0]] [] [] 100 1) = snd (identify_b0 [[0,0,0],[1,0,0]] [] [] 100 1) \<and>
   check_nx3 [[0,1],[0,0],[0,0]] 1 =
     Inr ([Printv msg_3xn 1 Warning, Printv msg_transpose 1 Normal], [[0,0,0],[1,0,0]]) \<and>
   Printv msg_3xn 1 Warning \<in> set (fst (identify_b0 [[0,1],[0,0],[0,0]] [] [] 100 1))"
proof -
  have 1: "nx3 [[0,0,0],[1,0,0]]" by (simp add: nx3_def)
  have 2: "length [[0,0,0],[1,0,0::real]] \<noteq> 3" by simp
  have 3: "stored_3xn [[0,0,0],[1,0,0]] [[0,1],[0,0],[0,0]]"
    by (simp add: stored_3xn_def upt_conv_Cons)
  from transposed_table_same_result [OF 1 2 3, of "[]" "[]" 100 1] 1 2 3
  show ?thesis by simp
qed

text \<open>
  Claim C7 as stated fails for \<open>N = 3\<close>: the first row of a \<open>3\<times>3\<close> table has three
  components, so line 265 takes it for \<open>N\<times>3\<close>, emits no warning and does not transpose
  it. The table with gradients \<open>(0,0,0)\<close>, \<open>(1,0,0)\<close>, \<open>(1,0,0)\<close> has frame 0 as its only
  b=0 frame; stored transposed it is classified with frames 1 and 2 as b=0.
\<close>

theorem square_table_not_transposed:
  "nx3 [[0,0,0],[1,0,0],[1,0,0]] \<and>
   stored_3xn [[0,0,0],[1,0,0],[1,0,0]] [[0,1,1],[0,0,0],[0,0,0]] \<and>
   snd (identify_b0 [[0,0,0],[1,0,0],[1,0,0]] [] [] 100 1) = Inr ([0], [1,2], 1, 2) \<and>
   snd (identify_b0 [[0,1,1],[0,0,0],[0,0,0]] [] [] 100 1) = Inr ([1,2], [0], 2, 1) \<and>
   check_nx3 [[0,1,1],[0,0,0],[0,0,0]] 1 = Inr ([], [[0,1,1],[0,0,0],[0,0,0]])"
  by (simp add: nx3_def stored_3xn_def upt_conv_Cons snd_identify_b0 snd_build_indices_nx3
      norm_lt_iff check_nx3_def)




section \<open>Assembling a class of frames\<close>

lemma digit_val_digit: "d < 10 \<Longrightarrow> digit_val (digit d) = d"
proof -
  assume "d < 10"
  then have "d \<in> {0, 1, 2, 3, 4, 5, 6, 7, 8, 9}" by auto
  then show ?thesis
    by (auto simp: digit_val_def digit_def)
qed

lemma decode_snoc: "decode (s @ [c]) = 10 * decode s + digit_val c"
  by (simp add: decode_def)

lemma decode_str_nat: "decode (str_nat n) = n"
proof (induction n rule: str_nat.induct)
  case (1 n)
  show ?case
  proof (cases "n < 10")
    case True
    then show ?thesis
      by (simp add: str_nat.simps [of n] decode_def digit_val_digit)
  next
    case False
    with "1" have "decode (str_nat (n div 10)) = n div 10" by simp
    with False show ?thesis
      by (simp add: str_nat.simps [of n] decode_snoc digit_val_digit)
  qed
qed

lemma decode_zeros: "foldl (\<lambda>a c. 10 * a + digit_val c) 0 (replicate k (CHR ''0'')) = 0"
  by (induction k) (simp_all add: digit_val_def)

lemma decode_zfill: "decode (zfill w s) = decode s"
  by (simp add: zfill_def decode_def decode_zeros)

lemma frame_fname_inj: "frame_fname i = frame_fname j \<Longrightarrow> i = j"
proof -
  assume "frame_fname i = frame_fname j"
  then have "zfill 4 (str_nat i) = zfill 4 (str_nat j)"
    by (simp add: frame_fname_def)
  then have "decode (zfill 4 (str_nat i)) = decode (zfill 4 (str_nat j))" by simp
  then show "i = j" by (simp add: decode_zfill decode_str_nat)
qed

lemma save_all_snoc: "save_all (ims @ [im]) fs = (save_all ims fs)(fst im \<mapsto> snd im)"
  by (simp add: save_all_def)

lemma save_all_lookup:
  "distinct (map fst ims) \<Longrightarrow> (p, v) \<in> set ims \<Longrightarrow> save_all ims fs p = Some v"
proof (induction ims rule: rev_induct)
  case Nil
  then show ?case by simp
next
  case (snoc im ims)
  show ?case
  proof (cases "(p, v) = im")
    case True
    then show ?thesis by (auto simp: save_all_snoc)
  next
    case False
    with snoc.prems have mem: "(p, v) \<in> set ims" by auto
    then have "p \<in> set (map fst ims)" by force
    with snoc.prems(1) have "fst im \<noteq> p" by auto
    moreover from snoc.prems(1) have "distinct (map fst ims)" by simp
    ultimately show ?thesis using snoc.IH mem by (simp add: save_all_snoc)
  qed
qed

lemma split_data_lookup:
  assumes "\<forall>k<length im. path_of k = frame_fname k" and "i < length im"
  shows "save_all (split_data im path_of) fs (frame_fname i) = Some [im ! i]"
proof (rule save_all_lookup)
  have "map fst (split_data im path_of) = map path_of [0..<length im]"
    by (simp add: split_data_def comp_def)
  also have "\<dots> = map frame_fname [0..<length im]"
    using assms(1) by simp
  finally have m: "map fst (split_data im path_of) = map frame_fname [0..<length im]" .
  have "inj_on frame_fname (set [0..<length im])"
    by (rule inj_onI) (rule frame_fname_inj)
  then show "distinct (map fst (split_data im path_of))"
    unfolding m by (simp add: distinct_map)
  from assms show "(frame_fname i, [im ! i]) \<in> set (split_data im path_of)"
    by (force simp: split_data_def)
qed

lemma read_all_map:
  "\<forall>i\<in>set index. fs (name i) = Some [im ! i] \<Longrightarrow>
   read_all fs (map name index) = Inr (map (\<lambda>i. [im ! i]) index)"
  by (induction index) simp_all

lemma merge_list_length: "merge_list index (length index) = map frame_fname index"
  by (rule nth_equalityI) (simp_all add: merge_list_def)

lemma concat_singletons: "concat (map (\<lambda>i. [f i]) xs) = map f xs"
  by (induction xs) simp_all

lemma digit_in: "d < 10 \<Longrightarrow> digit d \<in> set ''0123456789''"
  unfolding digit_def by (rule nth_mem) simp

lemma str_nat_digits: "set (str_nat n) \<subseteq> set ''0123456789''"
proof (induction n rule: str_nat.induct)
  case (1 n)
  show ?case
  proof (cases "n < 10")
    case True
    then show ?thesis
      using digit_in [of n] by (simp add: str_nat.simps [of n])
  next
    case False
    with "1" have "set (str_nat (n div 10)) \<subseteq> set ''0123456789''" by simp
    moreover have "digit (n mod 10) \<in> set ''0123456789''" by (rule digit_in) simp
    ultimately show ?thesis using False
      by (simp add: str_nat.simps [of n])
  qed
qed

lemma zfill_digits: "set s \<subseteq> set ''0123456789'' \<Longrightarrow> set (zfill w s) \<subseteq> set ''0123456789''"
  by (auto simp: zfill_def)

lemma length_zfill: "w \<le> length (zfill w s)"
  by (simp add: zfill_def)

lemma frame_fname_not_b0: "file_data @ ''_b0'' @ ext \<noteq> frame_fname i"
proof
  let ?z = "zfill 4 (str_nat i)"
  assume "file_data @ ''_b0'' @ ext = frame_fname i"
  then have "(file_data @ ''_b0'') @ ext = (dmri_name @ ''_T'' @ ?z) @ ext"
    by (simp add: frame_fname_def)
  then have "file_data @ ''_b0'' = dmri_name @ ''_T'' @ ?z"
    by (simp only: append_same_eq)
  then have "rev (file_data @ ''_b0'') ! 2 = rev (dmri_name @ ''_T'' @ ?z) ! 2"
    by simp
  moreover have "rev (file_data @ ''_b0'') ! 2 = CHR ''_''" by simp
  moreover have "4 \<le> length ?z" by (rule length_zfill)
  then have "rev (dmri_name @ ''_T'' @ ?z) ! 2 = rev ?z ! 2" and "2 < length (rev ?z)"
    by (simp_all add: nth_append)
  ultimately have "CHR ''_'' \<in> set (rev ?z)"
    by (metis nth_mem)
  then have "CHR ''_'' \<in> set ''0123456789''"
    using zfill_digits [OF str_nat_digits, of 4 i] by auto
  then show False by simp
qed


lemma assemble_stored:
  assumes "index \<noteq> []" and "\<forall>i\<in>set index. fs (frame_fname i) = Some [im ! i]"
  shows "assemble fs index = Inr (map (\<lambda>i. im ! i) index)"
proof -
  from assms(2) have "read_all fs (map frame_fname index) = Inr (map (\<lambda>i. [im ! i]) index)"
    by (rule read_all_map)
  with assms(1) show ?thesis
    by (simp add: assemble_def concat_data_def merge_list_length concat_singletons)
qed

lemma assemble_split:
  assumes "index \<noteq> []" and "\<forall>i\<in>set index. i < length im"
    and "\<forall>k<length im. path_of k = frame_fname k"
  shows "assemble (save_all (split_data im path_of) fs) index = Inr (map (\<lambda>i. im ! i) index)"
    and "assemble ((save_all (split_data im path_of) fs)(file_data @ ''_b0'' @ ext \<mapsto> b0)) index =
           Inr (map (\<lambda>i. im ! i) index)"
proof -
  have s: "\<forall>i\<in>set index. save_all (split_data im path_of) fs (frame_fname i) = Some [im ! i]"
    using assms(2,3) by (simp add: split_data_lookup)
  with assms(1) show "assemble (save_all (split_data im path_of) fs) index = Inr (map (\<lambda>i. im ! i) index)"
    by (rule assemble_stored)
  from s have "\<forall>i\<in>set index.
      ((save_all (split_data im path_of) fs)(file_data @ ''_b0'' @ ext \<mapsto> b0)) (frame_fname i) = Some [im ! i]"
    using frame_fname_not_b0 [of file_data, symmetric] by (simp add: fun_upd_apply)
  with assms(1) show "assemble ((save_all (split_data im path_of) fs)(file_data @ ''_b0'' @ ext \<mapsto> b0)) index =
           Inr (map (\<lambda>i. im ! i) index)"
    by (rule assemble_stored)
qed

lemma separate_volumes:
  assumes "index_b0 \<noteq> []" and "index_dwi \<noteq> []"
    and "\<forall>i\<in>set index_b0. i < length im" and "\<forall>i\<in>set index_dwi. i < length im"
    and "\<forall>k<length im. path_of k = frame_fname k"
  shows "separate r index_b0 index_dwi (length index_b0) (length index_dwi) im file_data path_of fs =
     Inr \<lparr>b0_volume = map (\<lambda>i. im ! i) index_b0, dwi_volume = map (\<lambda>i. im ! i) index_dwi,
          tmp_removed = py_eq r (PyInt 1)\<rparr>"
  using assemble_split(1) [OF assms(1,3,5)] assemble_split(2) [OF assms(2,4,5)]
  by (simp add: separate_def assemble_def)

text \<open>
  Claim C5, as amended. For every source volume and every non-empty list of indices of
  frames of that volume, the assembled volume has exactly \<open>len(index_list)\<close> frames, and
  its \<open>k\<close>-th frame is frame \<open>index_list[k]\<close> of the source: the frames are taken in list
  order, none repeated beyond the list and none left out. This holds for the merge of the
  b=0 frames, read from the folder as the split leaves it, and for the merge of the DWI
  frames, read after the b=0 volume has been saved there as well, provided the split
  saves frame \<open>k\<close> under the name \<open>main\<close> reads it back from.
\<close>

theorem assemble_frames:
  assumes "index_list \<noteq> []" and "\<forall>i\<in>set index_list. i < length im"
    and "\<forall>k<length im. path_of k = frame_fname k"
  shows "\<exists>out. assemble (save_all (split_data im path_of) fs) index_list = Inr out \<and>
     assemble ((save_all (split_data im path_of) fs)(file_data @ ''_b0'' @ ext \<mapsto> b0)) index_list = Inr out \<and>
     length out = length index_list \<and>
     (\<forall>k<length index_list. out ! k = im ! (index_list ! k))"
  using assemble_split [OF assms] by simp

theorem assemble_frames_witness:
  "[2, 0, 5::nat] \<noteq> [] \<and> length [10, 11, 12, 13, 14, 15::nat] = 6 \<and>
   (\<exists>out. assemble (save_all (split_data [10, 11, 12, 13, 14, 15::nat] frame_fname) Map.empty) [2, 0, 5] = Inr out \<and>
     length out = 3 \<and> out ! 0 = 12 \<and> out ! 1 = 10 \<and> out ! 2 = 15)"
proof -
  let ?im = "[10, 11, 12, 13, 14, 15::nat]"
  have 1: "[2, 0, 5::nat] \<noteq> []" by simp
  have 2: "\<forall>i\<in>set [2, 0, 5::nat]. i < length ?im" by simp
  have 3: "\<forall>k<length ?im. frame_fname k = frame_fname k" by simp
  from assemble_frames [OF 1 2 3, of Map.empty "[]" "[]"]
  obtain out where o: "assemble (save_all (split_data ?im frame_fname) Map.empty) [2, 0, 5] = Inr out"
    and l: "length out = length [2, 0, 5::nat]"
    and n: "\<forall>k<length [2, 0, 5::nat]. out ! k = ?im ! ([2, 0, 5] ! k)"
    by blast
  from n have "out ! 0 = ?im ! ([2, 0, 5] ! 0)" "out ! 1 = ?im ! ([2, 0, 5] ! 1)"
    "out ! 2 = ?im ! ([2, 0, 5] ! 2)" by simp_all
  then have "out ! 0 = 12" "out ! 1 = 10" "out ! 2 = 15" by simp_all
  with o l show ?thesis by simp
qed

text \<open>
  Claim C5 as stated covers every index list. For the empty list no volume is assembled:
  \<open>concat_data\<close> receives an empty list of names and fails.
\<close>

theorem assemble_empty_list:
  "assemble (save_all (split_data [10, 11, 12, 13, 14, 15::nat] frame_fname) Map.empty) [] =
     Inl EmptyClassError"
  by (simp add: assemble_def merge_list_def concat_data_def)

section \<open>The options \<open>-bvalmin\<close> and \<open>-r\<close>\<close>

lemma bval_min_set:
  "param_bval_min (set_bval_min Param_init args) =
     (case arg_bvalmin args of None \<Rightarrow> 100 | Some x \<Rightarrow> if x = 0 then 100 else x)"
  by (simp add: set_bval_min_def truthy_def Param_init_def split: option.splits)

text \<open>
  Claim C9. A threshold of exactly 0 given with \<open>-bvalmin\<close> is ignored: the option is
  tested for its truth value, so \<open>param.bval_min\<close> keeps its default 100 and the run is
  the one without the option. Every non-zero threshold given replaces the default. The
  threshold so set is the one \<open>identify_b0\<close> is called with.
\<close>

theorem bvalmin_zero_ignored:
  "param_bval_min (set_bval_min Param_init (args\<lparr>arg_bvalmin := Some 0\<rparr>)) = 100 \<and>
   main (args\<lparr>arg_bvalmin := Some 0\<rparr>) bvecs_file bvals_file im_dmri file_data path_of fs =
     main (args\<lparr>arg_bvalmin := None\<rparr>) bvecs_file bvals_file im_dmri file_data path_of fs \<and>
   (x \<noteq> 0 \<longrightarrow> param_bval_min (set_bval_min Param_init (args\<lparr>arg_bvalmin := Some x\<rparr>)) = x) \<and>
   main args bvecs_file bvals_file im_dmri file_data path_of fs =
     (case identify_b0 bvecs_file (arg_bval args) bvals_file
             (case arg_bvalmin args of None \<Rightarrow> 100 | Some x \<Rightarrow> if x = 0 then 100 else x)
             (arg_v args) of
        (msgs, Inl e) \<Rightarrow> (msgs, Inl e)
      | (msgs, Inr (index_b0, index_dwi, nb_b0, nb_dwi)) \<Rightarrow>
          (msgs, separate (arg_r args) index_b0 index_dwi nb_b0 nb_dwi im_dmri file_data path_of fs))"
proof (intro conjI impI)
  show "param_bval_min (set_bval_min Param_init (args\<lparr>arg_bvalmin := Some 0\<rparr>)) = 100"
    by (simp add: bval_min_set)
  show "main (args\<lparr>arg_bvalmin := Some 0\<rparr>) bvecs_file bvals_file im_dmri file_data path_of fs =
     main (args\<lparr>arg_bvalmin := None\<rparr>) bvecs_file bvals_file im_dmri file_data path_of fs"
    by (simp add: main_def bval_min_set)
  show "param_bval_min (set_bval_min Param_init (args\<lparr>arg_bvalmin := Some x\<rparr>)) = x" if "x \<noteq> 0"
    using that by (simp add: bval_min_set)
  show "main args bvecs_file bvals_file im_dmri file_data path_of fs =
     (case identify_b0 bvecs_file (arg_bval args) bvals_file
             (case arg_bvalmin args of None \<Rightarrow> 100 | Some x \<Rightarrow> if x = 0 then 100 else x)
             (arg_v args) of
        (msgs, Inl e) \<Rightarrow> (msgs, Inl e)
      | (msgs, Inr (index_b0, index_dwi, nb_b0, nb_dwi)) \<Rightarrow>
          (msgs, separate (arg_r args) index_b0 index_dwi nb_b0 nb_dwi im_dmri file_data path_of fs))"
    by (simp add: main_def bval_min_set)
qed

theorem bvalmin_zero_ignored_witness:
  "(50::real) \<noteq> 0 \<and>
   param_bval_min (set_bval_min Param_init
     \<lparr>arg_a = 1, arg_bval = ''bvals'', arg_bvalmin = Some 50, arg_r = PyInt 1, arg_v = 1\<rparr>) = 50 \<and>
   param_bval_min (set_bval_min Param_init
     \<lparr>arg_a = 1, arg_bval = ''bvals'', arg_bvalmin = Some 0, arg_r = PyInt 1, arg_v = 1\<rparr>) = 100 \<and>
   snd (main \<lparr>arg_a = 1, arg_bval = ''bvals'', arg_bvalmin = Some 0, arg_r = PyInt 1, arg_v = 1\<rparr>
          [[1,0,0],[1,0,0]] [50, 800] [10, 11::nat] ''dmri'' frame_fname Map.empty) =
     separate (PyInt 1) [0] [1] 1 1 [10, 11::nat] ''dmri'' frame_fname Map.empty"
proof -
  let ?args = "\<lparr>arg_a = 1, arg_bval = ''bvals'', arg_bvalmin = None, arg_r = PyInt 1, arg_v = 1\<rparr>"
  have "snd (identify_b0 [[1,0,0],[1,0,0]] ''bvals'' [50, 800] 100 1) = Inr ([0], [1], 1, 1)"
    by (simp add: snd_identify_b0 snd_build_indices_bvals upt_conv_Cons)
  then obtain msgs where
    i: "identify_b0 [[1,0,0],[1,0,0]] ''bvals'' [50, 800] 100 1 = (msgs, Inr ([0], [1], 1, 1))"
    by (cases "identify_b0 [[1,0,0],[1,0,0]] ''bvals'' [50, 800] 100 1") auto
  from bvalmin_zero_ignored [of ?args "[[1,0,0],[1,0,0]]" "[50, 800]" "[10, 11::nat]" "''dmri''"
      frame_fname Map.empty 50]
    bvalmin_zero_ignored [of "?args\<lparr>arg_bvalmin := Some 0\<rparr>" "[[1,0,0],[1,0,0]]" "[50, 800]"
      "[10, 11::nat]" "''dmri''" frame_fname Map.empty 50]
  show ?thesis
    by (simp add: i)
qed

text \<open>
  Claim C10. When \<open>-r\<close> is given on the command line, with \<open>'0'\<close> or \<open>'1'\<close>, the parsed
  value is a string, \<open>remove_temp_files == 1\<close> is false and a run that reaches line 234
  does not remove the temporary folder. The folder is removed only when \<open>-r\<close> is left out
  and the integer default 1 applies.
\<close>

theorem r_option_keeps_tmp:
  "(parse_r (Some s) = Inr r \<longrightarrow>
      \<not> py_eq r (PyInt 1) \<and>
      (\<forall>res. snd (main (args\<lparr>arg_r := r\<rparr>) bvecs_file bvals_file im_dmri file_data path_of fs) = Inr res
         \<longrightarrow> \<not> tmp_removed res)) \<and>
   (s = ''0'' \<or> s = ''1'' \<longrightarrow> parse_r (Some s) = Inr (PyStr s)) \<and>
   parse_r None = Inr (PyInt 1) \<and>
   (\<forall>res. snd (main (args\<lparr>arg_r := PyInt 1\<rparr>) bvecs_file bvals_file im_dmri file_data path_of fs) = Inr res
      \<longrightarrow> tmp_removed res) \<and>
   (parse_r given = Inr r' \<longrightarrow> (py_eq r' (PyInt 1) \<longleftrightarrow> given = None))"
proof -
  have m: "\<And>q res. snd (main (args\<lparr>arg_r := q\<rparr>) bvecs_file bvals_file im_dmri file_data path_of fs) = Inr res
      \<Longrightarrow> tmp_removed res = py_eq q (PyInt 1)"
    by (auto simp: main_def separate_def Let_def split: prod.splits sum.splits)
  have a: "parse_r (Some s) = Inr r \<Longrightarrow> \<not> py_eq r (PyInt 1)"
    by (auto simp: parse_r_def split: if_splits)
  have b: "parse_r given = Inr r' \<Longrightarrow> (py_eq r' (PyInt 1) \<longleftrightarrow> given = None)"
    by (auto simp: parse_r_def Param_init_def split: option.splits if_splits)
  show ?thesis
    using m a b by (auto simp: parse_r_def Param_init_def)
qed


lemma identify_b0_Inr:
  assumes "snd (identify_b0 bvecs_file fname_bvals bvals_file bval_min verbose) =
             Inr (index_b0, index_dwi, nb_b0, nb_dwi)"
  shows "index_b0 \<noteq> [] \<and> nb_b0 = length index_b0 \<and> nb_dwi = length index_dwi"
  using assms unfolding snd_identify_b0
  by (auto split: sum.splits prod.splits if_splits)

lemma snd_main_volumes:
  assumes "snd (identify_b0 bvecs_file (arg_bval args) bvals_file
                  (param_bval_min (set_bval_min Param_init args)) (arg_v args)) =
             Inr (index_b0, index_dwi, nb_b0, nb_dwi)"
    and "index_dwi \<noteq> []"
    and "\<forall>i\<in>set index_b0. i < length im" and "\<forall>i\<in>set index_dwi. i < length im"
    and "\<forall>k<length im. path_of k = frame_fname k"
  shows "snd (main args bvecs_file bvals_file im file_data path_of fs) =
     Inr \<lparr>b0_volume = map (\<lambda>i. im ! i) index_b0, dwi_volume = map (\<lambda>i. im ! i) index_dwi,
          tmp_removed = py_eq (arg_r args) (PyInt 1)\<rparr>"
proof (cases "identify_b0 bvecs_file (arg_bval args) bvals_file
                  (param_bval_min (set_bval_min Param_init args)) (arg_v args)")
  case (Pair msgs res)
  with assms(1) have res: "res = Inr (index_b0, index_dwi, nb_b0, nb_dwi)" by simp
  from identify_b0_Inr [OF assms(1)]
  have n: "index_b0 \<noteq> []" "nb_b0 = length index_b0" "nb_dwi = length index_dwi" by simp_all
  from Pair res n show ?thesis
    by (simp add: main_def separate_volumes [OF n(1) assms(2-5)])
qed

lemma main_two_frames:
  "snd (main \<lparr>arg_a = 1, arg_bval = [], arg_bvalmin = None, arg_r = q, arg_v = 1\<rparr>
          [[0,0,0],[1,0,0]] [] [10, 11::nat] ''dmri'' frame_fname Map.empty) =
     Inr \<lparr>b0_volume = [10], dwi_volume = [11], tmp_removed = py_eq q (PyInt 1)\<rparr>"
proof -
  let ?args = "\<lparr>arg_a = 1, arg_bval = [], arg_bvalmin = None, arg_r = q, arg_v = 1\<rparr>"
  have "snd (identify_b0 [[0,0,0],[1,0,0]] (arg_bval ?args) []
                  (param_bval_min (set_bval_min Param_init ?args)) (arg_v ?args)) =
             Inr ([0], [1], 1, 1)"
    by (simp add: snd_identify_b0 snd_build_indices_nx3 norm_lt_iff upt_conv_Cons)
  from snd_main_volumes [OF this, of "[10, 11::nat]" frame_fname "''dmri''" Map.empty]
  show ?thesis by simp
qed

text \<open>
  The scenario of five frames without b-values: frames 0, 1 and 4 have a null gradient.
  The b=0 volume holds source frames 0, 1, 4 and the DWI volume source frames 2, 3, in
  that order.
\<close>

lemma main_five_frames:
  "snd (main \<lparr>arg_a = 1, arg_bval = [], arg_bvalmin = None, arg_r = PyInt 1, arg_v = 1\<rparr>
          [[0,0,0],[0,0,0],[1,0,0],[0,1,0],[0,0,0]] [] [10, 11, 12, 13, 14::nat] ''dmri''
          frame_fname Map.empty) =
     Inr \<lparr>b0_volume = [10, 11, 14], dwi_volume = [12, 13], tmp_removed = True\<rparr>"
proof -
  let ?args = "\<lparr>arg_a = 1, arg_bval = [], arg_bvalmin = None, arg_r = PyInt 1, arg_v = 1\<rparr>"
  have "snd (identify_b0 [[0,0,0],[0,0,0],[1,0,0],[0,1,0],[0,0,0]] (arg_bval ?args) []
                  (param_bval_min (set_bval_min Param_init ?args)) (arg_v ?args)) =
             Inr ([0, 1, 4], [2, 3], 3, 2)"
    by (simp add: snd_identify_b0 snd_build_indices_nx3 norm_lt_iff upt_conv_Cons)
  from snd_main_volumes [OF this, of "[10, 11, 12, 13, 14::nat]" frame_fname "''dmri''" Map.empty]
  show ?thesis by simp
qed

theorem r_option_keeps_tmp_witness:
  "parse_r (Some ''1'') = Inr (PyStr ''1'') \<and>
   snd (main \<lparr>arg_a = 1, arg_bval = [], arg_bvalmin = None, arg_r = PyStr ''1'', arg_v = 1\<rparr>
          [[0,0,0],[1,0,0]] [] [10, 11::nat] ''dmri'' frame_fname Map.empty) =
     Inr \<lparr>b0_volume = [10], dwi_volume = [11], tmp_removed = False\<rparr> \<and>
   parse_r None = Inr (PyInt 1) \<and>
   snd (main \<lparr>arg_a = 1, arg_bval = [], arg_bvalmin = None, arg_r = PyInt 1, arg_v = 1\<rparr>
          [[0,0,0],[1,0,0]] [] [10, 11::nat] ''dmri'' frame_fname Map.empty) =
     Inr \<lparr>b0_volume = [10], dwi_volume = [11], tmp_removed = True\<rparr>"
proof -
  let ?args = "\<lparr>arg_a = 1, arg_bval = [], arg_bvalmin = None, arg_r = PyInt 1, arg_v = 1\<rparr>"
  have p: "parse_r (Some ''1'') = Inr (PyStr ''1'')"
    using r_option_keeps_tmp [of "''1''" "PyStr ''1''" ?args "[[0,0,0],[1,0,0]]" "[]" "[10, 11::nat]"
        "''dmri''" frame_fname Map.empty None "PyInt 1"]
    by simp
  with r_option_keeps_tmp [of "''1''" "PyStr ''1''" ?args "[[0,0,0],[1,0,0]]" "[]" "[10, 11::nat]"
        "''dmri''" frame_fname Map.empty None "PyInt 1"]
  have "\<not> py_eq (PyStr ''1'') (PyInt 1)" and "parse_r None = Inr (PyInt 1)"
    by simp_all
  with p show ?thesis
    by (simp add: main_two_frames)
qed

end
